theory Spec2Isabelle
  imports Complex_Main "HOL-Library.Sublist"
begin

section \<open>The host: requests, responses, network and cache storage\<close>

text \<open>
  The service worker of \<^verbatim>\<open>static/service-worker.js\<close> is a set of event handlers that
  call the browser: \<^verbatim>\<open>fetch\<close>, \<^verbatim>\<open>caches\<close>, \<^verbatim>\<open>Response\<close>, \<^verbatim>\<open>Promise\<close>. The handlers are
  embedded as functions that take the host's state (the cache storage) and the host's
  answers (what the network returns, which deletions reject) and return what the
  handler did: its reply, the host calls it made in order, and the storage once every
  promise it started has settled. The host's operations follow the Fetch and Cache
  interfaces of the browser; a storage fault of the host (a full disk, a quota) is not
  part of them.

  A URL is kept in the parsed form that \<^verbatim>\<open>new URL(event.request.url)\<close> gives; the
  origin starts with the scheme, as in \<^verbatim>\<open>https://suwi.example\<close>.
\<close>

record URL =
  origin :: string
  pathname :: string
  search :: string

record request =
  request_method :: string
  url :: URL
  request_headers :: "(string \<times> string) list"

record response =
  status :: nat
  headers :: "(string \<times> string) list"
  body :: string

text \<open>\<^verbatim>\<open>response.ok\<close>: the status is in the range 200 to 299.\<close>

definition ok :: "response \<Rightarrow> bool" where
  "ok r \<longleftrightarrow> 200 \<le> status r \<and> status r \<le> 299"

text \<open>The promise of \<^verbatim>\<open>fetch(request)\<close> rejects (transport failure) or resolves.\<close>

datatype net_result = NetReject | NetResponse response

type_synonym network = "request \<Rightarrow> net_result"

subsection \<open>Header lists\<close>

text \<open>
  The name of a header is compared without regard to the case of its ASCII letters.
  \<^verbatim>\<open>headers.get(name)\<close> is null when no header has the name, otherwise the values of the
  headers with the name, in order, joined by a comma and a space.
\<close>

definition lower_char :: "char \<Rightarrow> char" where
  "lower_char c =
     (let n = (of_char c :: nat) in if 65 \<le> n \<and> n \<le> 90 then char_of (n + 32) else c)"

definition lower :: "string \<Rightarrow> string" where
  "lower s = map lower_char s"

definition header_values :: "(string \<times> string) list \<Rightarrow> string \<Rightarrow> string list" where
  "header_values hs name = map snd (filter (\<lambda>h. lower (fst h) = lower name) hs)"

fun join :: "string list \<Rightarrow> string" where
  "join [] = []"
| "join [v] = v"
| "join (v # w # vs) = v @ '', '' @ join (w # vs)"

definition headers_get :: "(string \<times> string) list \<Rightarrow> string \<Rightarrow> string option" where
  "headers_get hs name =
     (case header_values hs name of [] \<Rightarrow> None | v # vs \<Rightarrow> Some (join (v # vs)))"

text \<open>\<^verbatim>\<open>event.request.headers.get('accept')\<close>\<close>

definition accept :: "request \<Rightarrow> string option" where
  "accept req = headers_get (request_headers req) ''accept''"

text \<open>
  The header names that the \<^verbatim>\<open>Vary\<close> headers of a response list: the values are split
  at commas, and spaces and tabs around each name are dropped.
\<close>

fun split_on :: "char \<Rightarrow> string \<Rightarrow> string list" where
  "split_on d [] = [[]]"
| "split_on d (c # cs) =
     (if c = d then [] # split_on d cs
      else (case split_on d cs of [] \<Rightarrow> [[c]] | w # ws \<Rightarrow> (c # w) # ws))"

definition blank :: "char \<Rightarrow> bool" where
  "blank c \<longleftrightarrow> c = CHR '' '' \<or> c = CHR 0x09"

definition trim :: "string \<Rightarrow> string" where
  "trim s = rev (dropWhile blank (rev (dropWhile blank s)))"

definition vary_fields :: "response \<Rightarrow> string list" where
  "vary_fields r =
     map (\<lambda>f. lower (trim f))
       (concat (map (split_on CHR '','') (header_values (headers r) ''vary'')))"

subsection \<open>Caches\<close>

text \<open>
  A cache is its entries in insertion order, each the request and the response that
  were put. The cache storage is the named caches in creation order.
\<close>

type_synonym cache = "(request \<times> response) list"

type_synonym cache_storage = "(string \<times> cache) list"

text \<open>
  Whether a request matches an entry, with the default options of \<^verbatim>\<open>match\<close>: the
  request and the stored request are GETs, the URLs (query included) are equal, and for
  every header that the stored response's \<^verbatim>\<open>Vary\<close> names, the name is not \<^verbatim>\<open>*\<close> and the
  request has the value that the stored request has.
\<close>

definition matches :: "request \<Rightarrow> request \<times> response \<Rightarrow> bool" where
  "matches q e \<longleftrightarrow>
     request_method q = ''GET'' \<and> request_method (fst e) = ''GET'' \<and> url q = url (fst e) \<and>
     (\<forall>f \<in> set (vary_fields (snd e)).
        f \<noteq> ''*'' \<and> headers_get (request_headers (fst e)) f = headers_get (request_headers q) f)"

text \<open>\<^verbatim>\<open>cache.match(request)\<close>: the response of the first entry that the request matches.\<close>

definition cache_match :: "request \<Rightarrow> cache \<Rightarrow> response option" where
  "cache_match q c = (case filter (matches q) c of [] \<Rightarrow> None | e # es \<Rightarrow> Some (snd e))"

text \<open>
  \<^verbatim>\<open>caches.match(request)\<close> is the method of the whole storage: it searches every cache,
  in creation order, and resolves to the first match (or to undefined, here None).
\<close>

fun caches_match :: "request \<Rightarrow> cache_storage \<Rightarrow> response option" where
  "caches_match q [] = None"
| "caches_match q ((n, c) # cs) =
     (case cache_match q c of Some r \<Rightarrow> Some r | None \<Rightarrow> caches_match q cs)"

text \<open>\<^verbatim>\<open>caches.open(name)\<close> creates the cache, empty and last in order, when it is absent.\<close>

definition caches_open :: "string \<Rightarrow> cache_storage \<Rightarrow> cache_storage" where
  "caches_open name cs = (if name \<in> set (map fst cs) then cs else cs @ [(name, [])])"

text \<open>
  \<^verbatim>\<open>cache.put(request, response)\<close> rejects, and writes nothing, when the URL of the
  request is not http or https, when the request is not a GET, when the status of the
  response is 206, or when its \<^verbatim>\<open>Vary\<close> names \<^verbatim>\<open>*\<close>. Otherwise it removes the entries
  that the request matches, then appends the new entry.
\<close>

definition scheme :: "URL \<Rightarrow> string" where
  "scheme u = takeWhile (\<lambda>c. c \<noteq> CHR '':'') (origin u)"

definition put_accepted :: "request \<Rightarrow> response \<Rightarrow> bool" where
  "put_accepted q r \<longleftrightarrow>
     (scheme (url q) = ''http'' \<or> scheme (url q) = ''https'') \<and> request_method q = ''GET'' \<and>
     status r \<noteq> 206 \<and> ''*'' \<notin> set (vary_fields r)"

definition cache_put :: "request \<Rightarrow> response \<Rightarrow> cache \<Rightarrow> cache" where
  "cache_put q r c = filter (\<lambda>e. \<not> matches q e) c @ [(q, r)]"

definition in_cache :: "string \<Rightarrow> (cache \<Rightarrow> cache) \<Rightarrow> cache_storage \<Rightarrow> cache_storage" where
  "in_cache name f cs = map (\<lambda>(n, c). if n = name then (n, f c) else (n, c)) cs"

definition caches_keys :: "cache_storage \<Rightarrow> string list" where
  "caches_keys cs = map fst cs"

definition caches_delete :: "string \<Rightarrow> cache_storage \<Rightarrow> cache_storage" where
  "caches_delete name cs = filter (\<lambda>e. fst e \<noteq> name) cs"

text \<open>The cache called \<open>name\<close>, when there is one.\<close>

definition store :: "cache_storage \<Rightarrow> string \<Rightarrow> cache option" where
  "store cs name = map_of cs name"

text \<open>JavaScript's \<^verbatim>\<open>s.startsWith(p)\<close> and \<^verbatim>\<open>s.includes(p)\<close>.\<close>

definition startsWith :: "string \<Rightarrow> string \<Rightarrow> bool" where
  "startsWith s p = prefix p s"

definition includes_str :: "string \<Rightarrow> string \<Rightarrow> bool" where
  "includes_str s p = sublist p s"

section \<open>The service worker\<close>

definition CACHE_VERSION :: string where
  "CACHE_VERSION = ''v1''"

definition CACHE_NAME :: string where
  "CACHE_NAME = ''suwi-'' @ CACHE_VERSION"


subsection \<open>The fetch handler\<close>

text \<open>
  What the requester gets: the handler returned without \<^verbatim>\<open>respondWith\<close> (the browser
  handles the request itself), or the promise given to \<^verbatim>\<open>respondWith\<close> resolved to a
  response, or it rejected (the requester sees a failed fetch).
\<close>

datatype reply = NotIntercepted | Responded response | RespondFailed

text \<open>The host calls a handler makes, in the order it makes them.\<close>

datatype effect =
    CachesMatch URL
  | Fetch request
  | CachePut string URL response

record fetch_outcome =
  reply :: reply
  effects :: "effect list"
  storage :: cache_storage

text \<open>The condition of the second \<^verbatim>\<open>if\<close> of the handler, on \<^verbatim>\<open>url.pathname\<close>.\<close>

definition bypass :: "string \<Rightarrow> bool" where
  "bypass p \<longleftrightarrow>
     startsWith p ''/admin/'' \<or> startsWith p ''/cart/'' \<or> startsWith p ''/orders/'' \<or>
     startsWith p ''/accounts/'' \<or> startsWith p ''/telegram/''"

text \<open>
  \<^verbatim>\<open>caches.open(CACHE_NAME).then((cache) => { cache.put(event.request, responseClone); })\<close>,
  which nothing awaits; the storage is taken once it has settled. The cache is opened
  (and created when absent) before the put, also when the put then rejects.
\<close>

definition put_clone :: "request \<Rightarrow> response \<Rightarrow> cache_storage \<Rightarrow> cache_storage" where
  "put_clone req r cs =
     (if put_accepted req r
      then in_cache CACHE_NAME (cache_put req r) (caches_open CACHE_NAME cs)
      else caches_open CACHE_NAME cs)"

text \<open>
  The two bodies that the handler builds with \<^verbatim>\<open>new Response\<close>. The HTML one is the
  UTF-8 encoding of the source's literal, whose Russian text is outside ASCII.
\<close>

definition offline_h1 :: string where
  "offline_h1 = map char_of
     [208, 146, 209, 139, 32, 208, 190, 209, 132, 208, 187, 208, 176, 208, 185, 208, 189 :: nat]"

definition offline_p :: string where
  "offline_p = map char_of
     [208, 159, 209, 128, 208, 190, 208, 178, 208, 181, 209, 128, 209, 140, 209, 130, 208, 181,
      32, 208, 191, 208, 190, 208, 180, 208, 186, 208, 187, 209, 142, 209, 135, 208, 181, 208,
      189, 208, 184, 208, 181, 32, 208, 186, 32, 208, 184, 208, 189, 209, 130, 208, 181, 209,
      128, 208, 189, 208, 181, 209, 130, 209, 131 :: nat]"

definition offline_html :: response where
  "offline_html =
     \<lparr>status = 503,
      headers = [(''Content-Type'', ''text/html; charset=utf-8'')],
      body = ''<html><body><h1>'' @ offline_h1 @ ''</h1><p>'' @ offline_p @ ''</p></body></html>''\<rparr>"

text \<open>
  \<^verbatim>\<open>new Response('Offline', { status: 503 })\<close>: the script gives no header; for a string
  body the constructor sets the content type itself.
\<close>

definition offline_plain :: response where
  "offline_plain =
     \<lparr>status = 503,
      headers = [(''Content-Type'', ''text/plain;charset=UTF-8'')],
      body = ''Offline''\<rparr>"

text \<open>\<^verbatim>\<open>event.request.headers.get('accept')?.includes('text/html')\<close>, as a condition.\<close>

definition accepts_html :: "request \<Rightarrow> bool" where
  "accepts_html req = (case accept req of None \<Rightarrow> False | Some a \<Rightarrow> includes_str a ''text/html'')"

definition cache_first :: "network \<Rightarrow> request \<Rightarrow> cache_storage \<Rightarrow> fetch_outcome" where
  "cache_first net req cs =
     (case caches_match req cs of
        Some cached \<Rightarrow>
          \<lparr>reply = Responded cached, effects = [CachesMatch (url req)], storage = cs\<rparr>
      | None \<Rightarrow>
          (case net req of
             NetReject \<Rightarrow>
               \<lparr>reply = RespondFailed, effects = [CachesMatch (url req), Fetch req],
                storage = cs\<rparr>
           | NetResponse r \<Rightarrow>
               if ok r then
                 \<lparr>reply = Responded r,
                  effects = [CachesMatch (url req), Fetch req, CachePut CACHE_NAME (url req) r],
                  storage = put_clone req r cs\<rparr>
               else
                 \<lparr>reply = Responded r, effects = [CachesMatch (url req), Fetch req],
                  storage = cs\<rparr>))"

definition network_first :: "network \<Rightarrow> request \<Rightarrow> cache_storage \<Rightarrow> fetch_outcome" where
  "network_first net req cs =
     (case net req of
        NetResponse r \<Rightarrow>
          if ok r then
            \<lparr>reply = Responded r, effects = [Fetch req, CachePut CACHE_NAME (url req) r],
             storage = put_clone req r cs\<rparr>
          else \<lparr>reply = Responded r, effects = [Fetch req], storage = cs\<rparr>
      | NetReject \<Rightarrow>
          (case caches_match req cs of
             Some cached \<Rightarrow>
               \<lparr>reply = Responded cached, effects = [Fetch req, CachesMatch (url req)],
                storage = cs\<rparr>
           | None \<Rightarrow>
               \<lparr>reply = Responded (if accepts_html req then offline_html else offline_plain),
                effects = [Fetch req, CachesMatch (url req)], storage = cs\<rparr>))"

text \<open>The listener of \<^verbatim>\<open>fetch\<close>, with its four exits in the source's order.\<close>

definition fetch_handler :: "network \<Rightarrow> request \<Rightarrow> cache_storage \<Rightarrow> fetch_outcome" where
  "fetch_handler net req cs =
     (if request_method req \<noteq> ''GET'' then \<lparr>reply = NotIntercepted, effects = [], storage = cs\<rparr>
      else if bypass (pathname (url req)) then
        \<lparr>reply = NotIntercepted, effects = [], storage = cs\<rparr>
      else if startsWith (pathname (url req)) ''/static/'' then cache_first net req cs
      else network_first net req cs)"

subsection \<open>Install and activate\<close>

text \<open>
  A lifecycle handler hands one promise to \<^verbatim>\<open>event.waitUntil\<close> and then signals the
  host (\<^verbatim>\<open>self.skipWaiting()\<close>, \<^verbatim>\<open>self.clients.claim()\<close>). Its outcome is how that promise
  settles, whether the signal was given, and the storage afterwards.
\<close>

datatype settled = Fulfilled | Rejected

record lifecycle_outcome =
  waitUntil :: settled
  signalled :: bool
  stores :: cache_storage





text \<open>The filter of the \<^verbatim>\<open>activate\<close> listener, on a cache name.\<close>

definition old_cache :: "string \<Rightarrow> bool" where
  "old_cache name \<longleftrightarrow> startsWith name ''suwi-'' \<and> name \<noteq> CACHE_NAME"

text \<open>
  The listener of \<^verbatim>\<open>activate\<close>. \<^verbatim>\<open>map\<close> calls \<^verbatim>\<open>caches.delete\<close> on every filtered name before
  any of the promises settles; \<open>rejects\<close> says for which names the host's deletion
  rejects (the cache then stays). \<^verbatim>\<open>Promise.all\<close> rejects when one of them does.
\<close>

definition activate :: "(string \<Rightarrow> bool) \<Rightarrow> cache_storage \<Rightarrow> lifecycle_outcome" where
  "activate rejects cs =
     (let doomed = filter old_cache (caches_keys cs) in
      \<lparr>waitUntil = (if \<exists>name \<in> set doomed. rejects name then Rejected else Fulfilled),
       signalled = True,
       stores = fold (\<lambda>name s. if rejects name then s else caches_delete name s) doomed cs\<rparr>)"

subsection \<open>The push handler\<close>

text \<open>
  The values that \<^verbatim>\<open>event.data.json()\<close> can give, with \<^verbatim>\<open>undefined\<close> for a member that
  is absent. A number is kept as a real: only its test against zero is used.
\<close>

datatype jsval =
    JUndefined
  | JNull
  | JBool bool
  | JNum real
  | JStr string
  | JArr "jsval list"
  | JObj "(string \<times> jsval) list"

datatype js_error = SyntaxError | TypeError

fun truthy :: "jsval \<Rightarrow> bool" where
  "truthy JUndefined = False"
| "truthy JNull = False"
| "truthy (JBool b) = b"
| "truthy (JNum x) = (x \<noteq> 0)"
| "truthy (JStr s) = (s \<noteq> [])"
| "truthy (JArr xs) = True"
| "truthy (JObj kvs) = True"

text \<open>The operator \<^verbatim>\<open>||\<close>.\<close>

definition js_or :: "jsval \<Rightarrow> jsval \<Rightarrow> jsval" where
  "js_or a b = (if truthy a then a else b)"

text \<open>
  \<^verbatim>\<open>data.name\<close> for one of the names \<^verbatim>\<open>title\<close>, \<^verbatim>\<open>body\<close>, \<^verbatim>\<open>url\<close>, which no prototype
  defines: reading a member of \<^verbatim>\<open>null\<close> throws, an object gives its own member or
  \<^verbatim>\<open>undefined\<close>, every other value gives \<^verbatim>\<open>undefined\<close>.
\<close>

fun member :: "jsval \<Rightarrow> string \<Rightarrow> js_error + jsval" where
  "member JUndefined name = Inl TypeError"
| "member JNull name = Inl TypeError"
| "member (JObj kvs) name = (case map_of kvs name of None \<Rightarrow> Inr JUndefined | Some v \<Rightarrow> Inr v)"
| "member v name = Inr JUndefined"

record notification_options =
  opt_body :: jsval
  opt_icon :: string
  opt_badge :: string
  opt_vibrate :: "nat list"
  opt_data_url :: jsval

datatype push_outcome =
    Ignored
  | Threw js_error
  | ShowNotification jsval notification_options

text \<open>
  The listener of \<^verbatim>\<open>push\<close>. \<open>event_data\<close> is \<^verbatim>\<open>event.data\<close>: None when the event has no
  payload, otherwise what \<^verbatim>\<open>event.data.json()\<close> gives, a value or a SyntaxError. The
  members are read in the order the source evaluates them.
\<close>

definition push_handler :: "(js_error + jsval) option \<Rightarrow> push_outcome" where
  "push_handler event_data =
     (case event_data of
        None \<Rightarrow> Ignored
      | Some (Inl e) \<Rightarrow> Threw e
      | Some (Inr d) \<Rightarrow>
          (case member d ''body'' of
             Inl e \<Rightarrow> Threw e
           | Inr b \<Rightarrow>
               (case member d ''url'' of
                  Inl e \<Rightarrow> Threw e
                | Inr u \<Rightarrow>
                    (case member d ''title'' of
                       Inl e \<Rightarrow> Threw e
                     | Inr t \<Rightarrow>
                         ShowNotification (js_or t (JStr ''Suwi''))
                           \<lparr>opt_body = b,
                            opt_icon = ''/static/icons/icon-192x192.png'',
                            opt_badge = ''/static/icons/icon-72x72.png'',
                            opt_vibrate = [100, 50, 100],
                            opt_data_url = js_or u (JStr ''/'')\<rparr>))))"

section \<open>Properties of the fetch handler\<close>

text \<open>
  C1. A request that is not a GET, and a GET whose path starts with one of
  \<^verbatim>\<open>/admin/\<close>, \<^verbatim>\<open>/cart/\<close>, \<^verbatim>\<open>/orders/\<close>, \<^verbatim>\<open>/accounts/\<close>, \<^verbatim>\<open>/telegram/\<close>, is not intercepted:
  the handler returns without \<^verbatim>\<open>respondWith\<close>, makes no host call at all (no cache read,
  no cache write, no fetch of its own) and leaves the storage as it was.
\<close>

theorem fetch_handler_not_intercepted:
  assumes "request_method req \<noteq> ''GET'' \<or>
           (\<exists>p \<in> {''/admin/'', ''/cart/'', ''/orders/'', ''/accounts/'', ''/telegram/''}.
              startsWith (pathname (url req)) p)"
  shows "fetch_handler net req cs = \<lparr>reply = NotIntercepted, effects = [], storage = cs\<rparr>"
  using assms by (auto simp: fetch_handler_def bypass_def)

theorem fetch_handler_not_intercepted_witness:
  "fetch_handler (\<lambda>q. NetReject) \<lparr>request_method = ''POST'', url = \<lparr>origin = ''https://suwi.example'', pathname = ''/menu/favorite/toggle/7/'', search = []\<rparr>, request_headers = []\<rparr> [(''suwi-v1'', [])]
   = \<lparr>reply = NotIntercepted, effects = [], storage = [(''suwi-v1'', [])]\<rparr>
   \<and> fetch_handler (\<lambda>q. NetReject) \<lparr>request_method = ''GET'', url = \<lparr>origin = ''https://suwi.example'', pathname = ''/cart/'', search = []\<rparr>, request_headers = []\<rparr> [(''suwi-v1'', [])]
   = \<lparr>reply = NotIntercepted, effects = [], storage = [(''suwi-v1'', [])]\<rparr>"
proof -
  have a: "fetch_handler (\<lambda>q. NetReject) \<lparr>request_method = ''POST'', url = \<lparr>origin = ''https://suwi.example'', pathname = ''/menu/favorite/toggle/7/'', search = []\<rparr>, request_headers = []\<rparr> [(''suwi-v1'', [])]
   = \<lparr>reply = NotIntercepted, effects = [], storage = [(''suwi-v1'', [])]\<rparr>"
    by (rule fetch_handler_not_intercepted) simp
  have b: "fetch_handler (\<lambda>q. NetReject) \<lparr>request_method = ''GET'', url = \<lparr>origin = ''https://suwi.example'', pathname = ''/cart/'', search = []\<rparr>, request_headers = []\<rparr> [(''suwi-v1'', [])]
   = \<lparr>reply = NotIntercepted, effects = [], storage = [(''suwi-v1'', [])]\<rparr>"
    by (rule fetch_handler_not_intercepted) (simp add: startsWith_def)
  from a b show ?thesis by simp
qed

subsection \<open>Facts about the cache storage\<close>

lemma matches_self: "put_accepted q r \<Longrightarrow> matches q (q, r)"
  by (auto simp: matches_def put_accepted_def)

lemma filter_matches_put:
  "matches q (q, r) \<Longrightarrow> filter (matches q) (cache_put q r c) = [(q, r)]"
  by (simp add: cache_put_def)

lemma cache_match_put_same:
  "matches q (q, r) \<Longrightarrow> cache_match q (cache_put q r c) = Some r"
  by (simp add: cache_match_def filter_matches_put)

lemma count_cache_put:
  "matches q (q, r) \<Longrightarrow> length (filter (matches q) (cache_put q r c)) = 1"
  by (simp add: filter_matches_put)



lemma map_of_in_cache:
  "map_of (in_cache name f cs) n = (if n = name then map_option f (map_of cs n) else map_of cs n)"
  by (induction cs) (auto simp: in_cache_def)

lemma map_of_caches_open:
  "map_of (caches_open name cs) n =
     (if n = name \<and> map_of cs n = None then Some [] else map_of cs n)"
proof (cases "name \<in> set (map fst cs)")
  case True
  then have "map_of cs name \<noteq> None" by (simp add: map_of_eq_None_iff)
  with True show ?thesis by (auto simp: caches_open_def)
next
  case False
  then have "map_of cs name = None" by (simp add: map_of_eq_None_iff)
  with False show ?thesis by (auto simp: caches_open_def map_add_def split: option.splits)
qed

lemma store_put_clone:
  "store (put_clone req r cs) n =
     (if n = CACHE_NAME
      then Some ((if put_accepted req r then cache_put req r else (\<lambda>c. c))
                  (case store cs CACHE_NAME of None \<Rightarrow> [] | Some c \<Rightarrow> c))
      else store cs n)"
  by (auto simp: store_def put_clone_def map_of_in_cache map_of_caches_open split: option.splits)

lemma caches_match_None_iff:
  "caches_match q cs = None \<longleftrightarrow> (\<forall>e \<in> set cs. cache_match q (snd e) = None)"
  by (induction cs) (auto split: option.splits)

lemma caches_match_only:
  assumes "store cs name = Some c" and "cache_match q c = Some r"
    and "\<forall>e \<in> set cs. fst e \<noteq> name \<longrightarrow> cache_match q (snd e) = None"
  shows "caches_match q cs = Some r"
  using assms by (induction cs) (auto simp: store_def split: option.splits if_splits)

lemma static_not_bypass: "startsWith p ''/static/'' \<Longrightarrow> \<not> bypass p"
  by (auto simp: startsWith_def bypass_def prefix_def)

lemma store_of_put_clone:
  assumes "put_accepted req r"
  shows "\<exists>c. store (put_clone req r cs) CACHE_NAME = Some c \<and> cache_match req c = Some r \<and>
       length (filter (matches req) c) = 1"
  using assms matches_self [OF assms]
  by (simp add: store_put_clone cache_match_put_same count_cache_put)

lemma page_request:
  assumes "request_method req = ''GET''" and "\<not> bypass (pathname (url req))"
    and "\<not> startsWith (pathname (url req)) ''/static/''"
  shows "fetch_handler net req cs = network_first net req cs"
  using assms by (simp add: fetch_handler_def)

subsection \<open>Static assets: cache first\<close>

text \<open>
  C2 (as amended). For a GET request whose path starts with \<^verbatim>\<open>/static/\<close> the handler
  looks the request up with \<^verbatim>\<open>caches.match\<close>, that is in every cache of the storage in
  creation order, not in the cache \<^verbatim>\<open>suwi-v1\<close> alone.
  \<^item> If some cache holds an entry that the request matches, the first such entry is the
    reply, with no fetch and nothing written; it is the entry of \<^verbatim>\<open>suwi-v1\<close> when no
    other cache holds one for the request.
  \<^item> If no cache holds such an entry, the request is fetched. An ok response is the reply
    and is put into \<^verbatim>\<open>suwi-v1\<close> under the request; the put stores it when the cache
    accepts it (an http or https URL, a status other than 206, a \<^verbatim>\<open>Vary\<close> that does not
    name \<^verbatim>\<open>*\<close>) and otherwise leaves \<^verbatim>\<open>suwi-v1\<close> opened and nothing written. A response
    that is not ok is the reply and nothing is written.
  \<^item> If no cache holds such an entry and the fetch rejects, the reply fails: no response
    is made up.
\<close>

theorem cache_first_strategy:
  assumes "request_method req = ''GET''" and "startsWith (pathname (url req)) ''/static/''"
  shows "(caches_match req cs = Some cached \<longrightarrow>
            fetch_handler net req cs =
              \<lparr>reply = Responded cached, effects = [CachesMatch (url req)], storage = cs\<rparr>) \<and>
         (store cs CACHE_NAME = Some c \<and> cache_match req c = Some cached \<and>
            (\<forall>e \<in> set cs. fst e \<noteq> CACHE_NAME \<longrightarrow> cache_match req (snd e) = None) \<longrightarrow>
            fetch_handler net req cs =
              \<lparr>reply = Responded cached, effects = [CachesMatch (url req)], storage = cs\<rparr>) \<and>
         (caches_match req cs = None \<and> net req = NetResponse r \<and> ok r \<longrightarrow>
            fetch_handler net req cs =
              \<lparr>reply = Responded r,
               effects = [CachesMatch (url req), Fetch req, CachePut CACHE_NAME (url req) r],
               storage = put_clone req r cs\<rparr> \<and>
            (put_accepted req r \<longrightarrow>
               (\<exists>c'. store (put_clone req r cs) CACHE_NAME = Some c' \<and>
                     cache_match req c' = Some r)) \<and>
            (\<not> put_accepted req r \<longrightarrow> put_clone req r cs = caches_open CACHE_NAME cs)) \<and>
         (caches_match req cs = None \<and> net req = NetResponse r \<and> \<not> ok r \<longrightarrow>
            fetch_handler net req cs =
              \<lparr>reply = Responded r, effects = [CachesMatch (url req), Fetch req], storage = cs\<rparr>) \<and>
         (caches_match req cs = None \<and> net req = NetReject \<longrightarrow>
            fetch_handler net req cs =
              \<lparr>reply = RespondFailed, effects = [CachesMatch (url req), Fetch req],
               storage = cs\<rparr>)"
proof -
  have h: "fetch_handler net req cs = cache_first net req cs"
    using assms by (simp add: fetch_handler_def static_not_bypass)
  have hit: "caches_match req cs = Some x \<Longrightarrow>
      cache_first net req cs =
        \<lparr>reply = Responded x, effects = [CachesMatch (url req)], storage = cs\<rparr>" for x
    by (simp add: cache_first_def)
  have only: "caches_match req cs = Some cached"
    if "store cs CACHE_NAME = Some c" and "cache_match req c = Some cached"
      and "\<forall>e \<in> set cs. fst e \<noteq> CACHE_NAME \<longrightarrow> cache_match req (snd e) = None"
    using that by (rule caches_match_only)
  have stored: "\<exists>c'. store (put_clone req r cs) CACHE_NAME = Some c' \<and>
      cache_match req c' = Some r" if "put_accepted req r"
    using store_of_put_clone [OF that, of cs] by blast
  have refused: "put_clone req r cs = caches_open CACHE_NAME cs" if "\<not> put_accepted req r"
    using that by (simp add: put_clone_def)
  show ?thesis
    unfolding h using hit only stored refused by (auto simp: cache_first_def)
qed

theorem cache_first_strategy_witness:
  "fetch_handler (\<lambda>q. NetReject) \<lparr>request_method = ''GET'', url = \<lparr>origin = ''https://suwi.example'', pathname = ''/static/css/main.css'', search = []\<rparr>, request_headers = []\<rparr> [(''site-cache'', [(\<lparr>request_method = ''GET'', url = \<lparr>origin = ''https://suwi.example'', pathname = ''/static/css/main.css'', search = []\<rparr>, request_headers = []\<rparr>, \<lparr>status = 200, headers = [], body = ''old''\<rparr>)]), (''suwi-v1'', [(\<lparr>request_method = ''GET'', url = \<lparr>origin = ''https://suwi.example'', pathname = ''/static/css/main.css'', search = []\<rparr>, request_headers = []\<rparr>, \<lparr>status = 200, headers = [], body = ''new''\<rparr>)])]
     = \<lparr>reply = Responded \<lparr>status = 200, headers = [], body = ''old''\<rparr>, effects = [CachesMatch \<lparr>origin = ''https://suwi.example'', pathname = ''/static/css/main.css'', search = []\<rparr>],
        storage = [(''site-cache'', [(\<lparr>request_method = ''GET'', url = \<lparr>origin = ''https://suwi.example'', pathname = ''/static/css/main.css'', search = []\<rparr>, request_headers = []\<rparr>, \<lparr>status = 200, headers = [], body = ''old''\<rparr>)]), (''suwi-v1'', [(\<lparr>request_method = ''GET'', url = \<lparr>origin = ''https://suwi.example'', pathname = ''/static/css/main.css'', search = []\<rparr>, request_headers = []\<rparr>, \<lparr>status = 200, headers = [], body = ''new''\<rparr>)])]\<rparr>
   \<and> fetch_handler (\<lambda>q. NetReject) \<lparr>request_method = ''GET'', url = \<lparr>origin = ''https://suwi.example'', pathname = ''/static/css/main.css'', search = []\<rparr>, request_headers = []\<rparr> [(''suwi-v1'', [(\<lparr>request_method = ''GET'', url = \<lparr>origin = ''https://suwi.example'', pathname = ''/static/css/main.css'', search = []\<rparr>, request_headers = []\<rparr>, \<lparr>status = 200, headers = [], body = ''new''\<rparr>)])]
     = \<lparr>reply = Responded \<lparr>status = 200, headers = [], body = ''new''\<rparr>, effects = [CachesMatch \<lparr>origin = ''https://suwi.example'', pathname = ''/static/css/main.css'', search = []\<rparr>],
        storage = [(''suwi-v1'', [(\<lparr>request_method = ''GET'', url = \<lparr>origin = ''https://suwi.example'', pathname = ''/static/css/main.css'', search = []\<rparr>, request_headers = []\<rparr>, \<lparr>status = 200, headers = [], body = ''new''\<rparr>)])]\<rparr>
   \<and> fetch_handler (\<lambda>q. NetResponse \<lparr>status = 200, headers = [], body = ''new''\<rparr>) \<lparr>request_method = ''GET'', url = \<lparr>origin = ''https://suwi.example'', pathname = ''/static/css/main.css'', search = []\<rparr>, request_headers = []\<rparr> []
     = \<lparr>reply = Responded \<lparr>status = 200, headers = [], body = ''new''\<rparr>,
        effects = [CachesMatch \<lparr>origin = ''https://suwi.example'', pathname = ''/static/css/main.css'', search = []\<rparr>, Fetch \<lparr>request_method = ''GET'', url = \<lparr>origin = ''https://suwi.example'', pathname = ''/static/css/main.css'', search = []\<rparr>, request_headers = []\<rparr>, CachePut ''suwi-v1'' \<lparr>origin = ''https://suwi.example'', pathname = ''/static/css/main.css'', search = []\<rparr> \<lparr>status = 200, headers = [], body = ''new''\<rparr>],
        storage = [(''suwi-v1'', [(\<lparr>request_method = ''GET'', url = \<lparr>origin = ''https://suwi.example'', pathname = ''/static/css/main.css'', search = []\<rparr>, request_headers = []\<rparr>, \<lparr>status = 200, headers = [], body = ''new''\<rparr>)])]\<rparr>
   \<and> fetch_handler (\<lambda>q. NetResponse \<lparr>status = 206, headers = [], body = ''part''\<rparr>) \<lparr>request_method = ''GET'', url = \<lparr>origin = ''https://suwi.example'', pathname = ''/static/css/main.css'', search = []\<rparr>, request_headers = []\<rparr> []
     = \<lparr>reply = Responded \<lparr>status = 206, headers = [], body = ''part''\<rparr>,
        effects = [CachesMatch \<lparr>origin = ''https://suwi.example'', pathname = ''/static/css/main.css'', search = []\<rparr>, Fetch \<lparr>request_method = ''GET'', url = \<lparr>origin = ''https://suwi.example'', pathname = ''/static/css/main.css'', search = []\<rparr>, request_headers = []\<rparr>, CachePut ''suwi-v1'' \<lparr>origin = ''https://suwi.example'', pathname = ''/static/css/main.css'', search = []\<rparr> \<lparr>status = 206, headers = [], body = ''part''\<rparr>],
        storage = [(''suwi-v1'', [])]\<rparr>
   \<and> fetch_handler (\<lambda>q. NetResponse \<lparr>status = 404, headers = [], body = ''not found''\<rparr>) \<lparr>request_method = ''GET'', url = \<lparr>origin = ''https://suwi.example'', pathname = ''/static/css/main.css'', search = []\<rparr>, request_headers = []\<rparr> []
     = \<lparr>reply = Responded \<lparr>status = 404, headers = [], body = ''not found''\<rparr>, effects = [CachesMatch \<lparr>origin = ''https://suwi.example'', pathname = ''/static/css/main.css'', search = []\<rparr>, Fetch \<lparr>request_method = ''GET'', url = \<lparr>origin = ''https://suwi.example'', pathname = ''/static/css/main.css'', search = []\<rparr>, request_headers = []\<rparr>], storage = []\<rparr>
   \<and> fetch_handler (\<lambda>q. NetReject) \<lparr>request_method = ''GET'', url = \<lparr>origin = ''https://suwi.example'', pathname = ''/static/css/main.css'', search = []\<rparr>, request_headers = []\<rparr> []
     = \<lparr>reply = RespondFailed, effects = [CachesMatch \<lparr>origin = ''https://suwi.example'', pathname = ''/static/css/main.css'', search = []\<rparr>, Fetch \<lparr>request_method = ''GET'', url = \<lparr>origin = ''https://suwi.example'', pathname = ''/static/css/main.css'', search = []\<rparr>, request_headers = []\<rparr>], storage = []\<rparr>"
proof -
  have m: "request_method \<lparr>request_method = ''GET'', url = \<lparr>origin = ''https://suwi.example'', pathname = ''/static/css/main.css'', search = []\<rparr>, request_headers = []\<rparr> = ''GET''"
    by simp
  have s: "startsWith (pathname (url \<lparr>request_method = ''GET'', url = \<lparr>origin = ''https://suwi.example'', pathname = ''/static/css/main.css'', search = []\<rparr>, request_headers = []\<rparr>)) ''/static/''"
    by (simp add: startsWith_def)
  note defs = cache_match_def matches_def vary_fields_def header_values_def store_def ok_def
    put_clone_def put_accepted_def scheme_def caches_open_def in_cache_def cache_put_def
    CACHE_NAME_def CACHE_VERSION_def
  have a: "fetch_handler (\<lambda>q. NetReject) \<lparr>request_method = ''GET'', url = \<lparr>origin = ''https://suwi.example'', pathname = ''/static/css/main.css'', search = []\<rparr>, request_headers = []\<rparr> [(''site-cache'', [(\<lparr>request_method = ''GET'', url = \<lparr>origin = ''https://suwi.example'', pathname = ''/static/css/main.css'', search = []\<rparr>, request_headers = []\<rparr>, \<lparr>status = 200, headers = [], body = ''old''\<rparr>)]), (''suwi-v1'', [(\<lparr>request_method = ''GET'', url = \<lparr>origin = ''https://suwi.example'', pathname = ''/static/css/main.css'', search = []\<rparr>, request_headers = []\<rparr>, \<lparr>status = 200, headers = [], body = ''new''\<rparr>)])]
     = \<lparr>reply = Responded \<lparr>status = 200, headers = [], body = ''old''\<rparr>, effects = [CachesMatch \<lparr>origin = ''https://suwi.example'', pathname = ''/static/css/main.css'', search = []\<rparr>],
        storage = [(''site-cache'', [(\<lparr>request_method = ''GET'', url = \<lparr>origin = ''https://suwi.example'', pathname = ''/static/css/main.css'', search = []\<rparr>, request_headers = []\<rparr>, \<lparr>status = 200, headers = [], body = ''old''\<rparr>)]), (''suwi-v1'', [(\<lparr>request_method = ''GET'', url = \<lparr>origin = ''https://suwi.example'', pathname = ''/static/css/main.css'', search = []\<rparr>, request_headers = []\<rparr>, \<lparr>status = 200, headers = [], body = ''new''\<rparr>)])]\<rparr>"
    using cache_first_strategy [OF m s, where cached = "\<lparr>status = 200, headers = [], body = ''old''\<rparr>" and net = "(\<lambda>q. NetReject)"
        and cs = "[(''site-cache'', [(\<lparr>request_method = ''GET'', url = \<lparr>origin = ''https://suwi.example'', pathname = ''/static/css/main.css'', search = []\<rparr>, request_headers = []\<rparr>, \<lparr>status = 200, headers = [], body = ''old''\<rparr>)]), (''suwi-v1'', [(\<lparr>request_method = ''GET'', url = \<lparr>origin = ''https://suwi.example'', pathname = ''/static/css/main.css'', search = []\<rparr>, request_headers = []\<rparr>, \<lparr>status = 200, headers = [], body = ''new''\<rparr>)])]"]
    by (simp add: defs)
  have b: "fetch_handler (\<lambda>q. NetReject) \<lparr>request_method = ''GET'', url = \<lparr>origin = ''https://suwi.example'', pathname = ''/static/css/main.css'', search = []\<rparr>, request_headers = []\<rparr> [(''suwi-v1'', [(\<lparr>request_method = ''GET'', url = \<lparr>origin = ''https://suwi.example'', pathname = ''/static/css/main.css'', search = []\<rparr>, request_headers = []\<rparr>, \<lparr>status = 200, headers = [], body = ''new''\<rparr>)])]
     = \<lparr>reply = Responded \<lparr>status = 200, headers = [], body = ''new''\<rparr>, effects = [CachesMatch \<lparr>origin = ''https://suwi.example'', pathname = ''/static/css/main.css'', search = []\<rparr>],
        storage = [(''suwi-v1'', [(\<lparr>request_method = ''GET'', url = \<lparr>origin = ''https://suwi.example'', pathname = ''/static/css/main.css'', search = []\<rparr>, request_headers = []\<rparr>, \<lparr>status = 200, headers = [], body = ''new''\<rparr>)])]\<rparr>"
    using cache_first_strategy [OF m s, where cached = "\<lparr>status = 200, headers = [], body = ''new''\<rparr>" and net = "(\<lambda>q. NetReject)"
        and c = "[(\<lparr>request_method = ''GET'', url = \<lparr>origin = ''https://suwi.example'', pathname = ''/static/css/main.css'', search = []\<rparr>, request_headers = []\<rparr>, \<lparr>status = 200, headers = [], body = ''new''\<rparr>)]" and cs = "[(''suwi-v1'', [(\<lparr>request_method = ''GET'', url = \<lparr>origin = ''https://suwi.example'', pathname = ''/static/css/main.css'', search = []\<rparr>, request_headers = []\<rparr>, \<lparr>status = 200, headers = [], body = ''new''\<rparr>)])]"]
    by (simp add: defs)
  have c: "fetch_handler (\<lambda>q. NetResponse \<lparr>status = 200, headers = [], body = ''new''\<rparr>) \<lparr>request_method = ''GET'', url = \<lparr>origin = ''https://suwi.example'', pathname = ''/static/css/main.css'', search = []\<rparr>, request_headers = []\<rparr> []
     = \<lparr>reply = Responded \<lparr>status = 200, headers = [], body = ''new''\<rparr>,
        effects = [CachesMatch \<lparr>origin = ''https://suwi.example'', pathname = ''/static/css/main.css'', search = []\<rparr>, Fetch \<lparr>request_method = ''GET'', url = \<lparr>origin = ''https://suwi.example'', pathname = ''/static/css/main.css'', search = []\<rparr>, request_headers = []\<rparr>, CachePut ''suwi-v1'' \<lparr>origin = ''https://suwi.example'', pathname = ''/static/css/main.css'', search = []\<rparr> \<lparr>status = 200, headers = [], body = ''new''\<rparr>],
        storage = [(''suwi-v1'', [(\<lparr>request_method = ''GET'', url = \<lparr>origin = ''https://suwi.example'', pathname = ''/static/css/main.css'', search = []\<rparr>, request_headers = []\<rparr>, \<lparr>status = 200, headers = [], body = ''new''\<rparr>)])]\<rparr>"
    using cache_first_strategy [OF m s, where r = "\<lparr>status = 200, headers = [], body = ''new''\<rparr>" and net = "(\<lambda>q. NetResponse \<lparr>status = 200, headers = [], body = ''new''\<rparr>)" and cs = "[]"]
    by (simp add: defs)
  have p: "fetch_handler (\<lambda>q. NetResponse \<lparr>status = 206, headers = [], body = ''part''\<rparr>) \<lparr>request_method = ''GET'', url = \<lparr>origin = ''https://suwi.example'', pathname = ''/static/css/main.css'', search = []\<rparr>, request_headers = []\<rparr> []
     = \<lparr>reply = Responded \<lparr>status = 206, headers = [], body = ''part''\<rparr>,
        effects = [CachesMatch \<lparr>origin = ''https://suwi.example'', pathname = ''/static/css/main.css'', search = []\<rparr>, Fetch \<lparr>request_method = ''GET'', url = \<lparr>origin = ''https://suwi.example'', pathname = ''/static/css/main.css'', search = []\<rparr>, request_headers = []\<rparr>, CachePut ''suwi-v1'' \<lparr>origin = ''https://suwi.example'', pathname = ''/static/css/main.css'', search = []\<rparr> \<lparr>status = 206, headers = [], body = ''part''\<rparr>],
        storage = [(''suwi-v1'', [])]\<rparr>"
    using cache_first_strategy [OF m s, where r = "\<lparr>status = 206, headers = [], body = ''part''\<rparr>" and net = "(\<lambda>q. NetResponse \<lparr>status = 206, headers = [], body = ''part''\<rparr>)" and cs = "[]"]
    by (simp add: defs)
  have d: "fetch_handler (\<lambda>q. NetResponse \<lparr>status = 404, headers = [], body = ''not found''\<rparr>) \<lparr>request_method = ''GET'', url = \<lparr>origin = ''https://suwi.example'', pathname = ''/static/css/main.css'', search = []\<rparr>, request_headers = []\<rparr> []
     = \<lparr>reply = Responded \<lparr>status = 404, headers = [], body = ''not found''\<rparr>, effects = [CachesMatch \<lparr>origin = ''https://suwi.example'', pathname = ''/static/css/main.css'', search = []\<rparr>, Fetch \<lparr>request_method = ''GET'', url = \<lparr>origin = ''https://suwi.example'', pathname = ''/static/css/main.css'', search = []\<rparr>, request_headers = []\<rparr>], storage = []\<rparr>"
    using cache_first_strategy [OF m s, where r = "\<lparr>status = 404, headers = [], body = ''not found''\<rparr>" and net = "(\<lambda>q. NetResponse \<lparr>status = 404, headers = [], body = ''not found''\<rparr>)" and cs = "[]"]
    by (simp add: defs)
  have e: "fetch_handler (\<lambda>q. NetReject) \<lparr>request_method = ''GET'', url = \<lparr>origin = ''https://suwi.example'', pathname = ''/static/css/main.css'', search = []\<rparr>, request_headers = []\<rparr> []
     = \<lparr>reply = RespondFailed, effects = [CachesMatch \<lparr>origin = ''https://suwi.example'', pathname = ''/static/css/main.css'', search = []\<rparr>, Fetch \<lparr>request_method = ''GET'', url = \<lparr>origin = ''https://suwi.example'', pathname = ''/static/css/main.css'', search = []\<rparr>, request_headers = []\<rparr>], storage = []\<rparr>"
    using cache_first_strategy [OF m s, where net = "(\<lambda>q. NetReject)" and cs = "[]"]
    by (simp add: defs)
  from a b c p d e show ?thesis
    by (intro conjI)
qed

text \<open>
  C2 as stated fails where another cache, created before \<^verbatim>\<open>suwi-v1\<close>, holds an entry for
  the same request: \<^verbatim>\<open>suwi-v1\<close> holds the response with body \<^verbatim>\<open>new\<close>, and the reply is the
  other cache's response, with body \<^verbatim>\<open>old\<close>.
\<close>

theorem cache_first_store_counterexample:
  "store [(''site-cache'', [(\<lparr>request_method = ''GET'', url = \<lparr>origin = ''https://suwi.example'', pathname = ''/static/css/main.css'', search = []\<rparr>, request_headers = []\<rparr>, \<lparr>status = 200, headers = [], body = ''old''\<rparr>)]), (''suwi-v1'', [(\<lparr>request_method = ''GET'', url = \<lparr>origin = ''https://suwi.example'', pathname = ''/static/css/main.css'', search = []\<rparr>, request_headers = []\<rparr>, \<lparr>status = 200, headers = [], body = ''new''\<rparr>)])] CACHE_NAME
     = Some [(\<lparr>request_method = ''GET'', url = \<lparr>origin = ''https://suwi.example'', pathname = ''/static/css/main.css'', search = []\<rparr>, request_headers = []\<rparr>, \<lparr>status = 200, headers = [], body = ''new''\<rparr>)]
   \<and> cache_match \<lparr>request_method = ''GET'', url = \<lparr>origin = ''https://suwi.example'', pathname = ''/static/css/main.css'', search = []\<rparr>, request_headers = []\<rparr> [(\<lparr>request_method = ''GET'', url = \<lparr>origin = ''https://suwi.example'', pathname = ''/static/css/main.css'', search = []\<rparr>, request_headers = []\<rparr>, \<lparr>status = 200, headers = [], body = ''new''\<rparr>)] = Some \<lparr>status = 200, headers = [], body = ''new''\<rparr>
   \<and> reply (fetch_handler (\<lambda>q. NetReject) \<lparr>request_method = ''GET'', url = \<lparr>origin = ''https://suwi.example'', pathname = ''/static/css/main.css'', search = []\<rparr>, request_headers = []\<rparr>
        [(''site-cache'', [(\<lparr>request_method = ''GET'', url = \<lparr>origin = ''https://suwi.example'', pathname = ''/static/css/main.css'', search = []\<rparr>, request_headers = []\<rparr>, \<lparr>status = 200, headers = [], body = ''old''\<rparr>)]), (''suwi-v1'', [(\<lparr>request_method = ''GET'', url = \<lparr>origin = ''https://suwi.example'', pathname = ''/static/css/main.css'', search = []\<rparr>, request_headers = []\<rparr>, \<lparr>status = 200, headers = [], body = ''new''\<rparr>)])])
     = Responded \<lparr>status = 200, headers = [], body = ''old''\<rparr>
   \<and> reply (fetch_handler (\<lambda>q. NetReject) \<lparr>request_method = ''GET'', url = \<lparr>origin = ''https://suwi.example'', pathname = ''/static/css/main.css'', search = []\<rparr>, request_headers = []\<rparr>
        [(''site-cache'', [(\<lparr>request_method = ''GET'', url = \<lparr>origin = ''https://suwi.example'', pathname = ''/static/css/main.css'', search = []\<rparr>, request_headers = []\<rparr>, \<lparr>status = 200, headers = [], body = ''old''\<rparr>)]), (''suwi-v1'', [(\<lparr>request_method = ''GET'', url = \<lparr>origin = ''https://suwi.example'', pathname = ''/static/css/main.css'', search = []\<rparr>, request_headers = []\<rparr>, \<lparr>status = 200, headers = [], body = ''new''\<rparr>)])])
     \<noteq> Responded \<lparr>status = 200, headers = [], body = ''new''\<rparr>"
  by (simp add: fetch_handler_def cache_first_def bypass_def startsWith_def store_def
      cache_match_def matches_def vary_fields_def header_values_def
      CACHE_NAME_def CACHE_VERSION_def)

subsection \<open>Pages: network first, then the caches, then an offline notice\<close>

text \<open>
  C3 (as amended). For a page request (a GET whose path starts with neither a bypass
  prefix nor \<^verbatim>\<open>/static/\<close>) whose fetch rejects, the handler looks the request up with
  \<^verbatim>\<open>caches.match\<close>, in every cache of the storage in creation order. If some cache holds
  an entry that the request matches, the first such entry is the reply, unchanged
  (status, headers and body as stored), whatever its age, and the storage stays as it
  was; it is the entry of \<^verbatim>\<open>suwi-v1\<close> when no other cache holds one for the request.
\<close>

theorem network_first_cache_fallback:
  assumes "request_method req = ''GET''" and "\<not> bypass (pathname (url req))"
    and "\<not> startsWith (pathname (url req)) ''/static/''" and "net req = NetReject"
  shows "(caches_match req cs = Some cached \<longrightarrow>
            fetch_handler net req cs =
              \<lparr>reply = Responded cached, effects = [Fetch req, CachesMatch (url req)],
               storage = cs\<rparr>) \<and>
         (store cs CACHE_NAME = Some c \<and> cache_match req c = Some cached \<and>
            (\<forall>e \<in> set cs. fst e \<noteq> CACHE_NAME \<longrightarrow> cache_match req (snd e) = None) \<longrightarrow>
            fetch_handler net req cs =
              \<lparr>reply = Responded cached, effects = [Fetch req, CachesMatch (url req)],
               storage = cs\<rparr>)"
proof -
  have hit: "caches_match req cs = Some x \<Longrightarrow>
      network_first net req cs =
        \<lparr>reply = Responded x, effects = [Fetch req, CachesMatch (url req)], storage = cs\<rparr>" for x
    using assms(4) by (simp add: network_first_def)
  have only: "caches_match req cs = Some cached"
    if "store cs CACHE_NAME = Some c" and "cache_match req c = Some cached"
      and "\<forall>e \<in> set cs. fst e \<noteq> CACHE_NAME \<longrightarrow> cache_match req (snd e) = None"
    using that by (rule caches_match_only)
  show ?thesis
    unfolding page_request [OF assms(1-3)] using hit only by blast
qed

theorem network_first_cache_fallback_witness:
  "fetch_handler (\<lambda>q. NetReject) \<lparr>request_method = ''GET'', url = \<lparr>origin = ''https://suwi.example'', pathname = ''/menu/'', search = []\<rparr>, request_headers = []\<rparr> [(''suwi-v1'', [(\<lparr>request_method = ''GET'', url = \<lparr>origin = ''https://suwi.example'', pathname = ''/menu/'', search = []\<rparr>, request_headers = []\<rparr>, \<lparr>status = 200, headers = [], body = ''old''\<rparr>)])]
     = \<lparr>reply = Responded \<lparr>status = 200, headers = [], body = ''old''\<rparr>, effects = [Fetch \<lparr>request_method = ''GET'', url = \<lparr>origin = ''https://suwi.example'', pathname = ''/menu/'', search = []\<rparr>, request_headers = []\<rparr>, CachesMatch \<lparr>origin = ''https://suwi.example'', pathname = ''/menu/'', search = []\<rparr>],
        storage = [(''suwi-v1'', [(\<lparr>request_method = ''GET'', url = \<lparr>origin = ''https://suwi.example'', pathname = ''/menu/'', search = []\<rparr>, request_headers = []\<rparr>, \<lparr>status = 200, headers = [], body = ''old''\<rparr>)])]\<rparr>"
proof -
  have m: "request_method \<lparr>request_method = ''GET'', url = \<lparr>origin = ''https://suwi.example'', pathname = ''/menu/'', search = []\<rparr>, request_headers = []\<rparr> = ''GET''"
    by simp
  have b: "\<not> bypass (pathname (url \<lparr>request_method = ''GET'', url = \<lparr>origin = ''https://suwi.example'', pathname = ''/menu/'', search = []\<rparr>, request_headers = []\<rparr>))"
    by (simp add: bypass_def startsWith_def)
  have s: "\<not> startsWith (pathname (url \<lparr>request_method = ''GET'', url = \<lparr>origin = ''https://suwi.example'', pathname = ''/menu/'', search = []\<rparr>, request_headers = []\<rparr>)) ''/static/''"
    by (simp add: startsWith_def)
  have n: "(\<lambda>q. NetReject) \<lparr>request_method = ''GET'', url = \<lparr>origin = ''https://suwi.example'', pathname = ''/menu/'', search = []\<rparr>, request_headers = []\<rparr> = NetReject"
    by simp
  show ?thesis
    using network_first_cache_fallback [OF m b s n, where cached = "\<lparr>status = 200, headers = [], body = ''old''\<rparr>"
        and c = "[(\<lparr>request_method = ''GET'', url = \<lparr>origin = ''https://suwi.example'', pathname = ''/menu/'', search = []\<rparr>, request_headers = []\<rparr>, \<lparr>status = 200, headers = [], body = ''old''\<rparr>)]" and cs = "[(''suwi-v1'', [(\<lparr>request_method = ''GET'', url = \<lparr>origin = ''https://suwi.example'', pathname = ''/menu/'', search = []\<rparr>, request_headers = []\<rparr>, \<lparr>status = 200, headers = [], body = ''old''\<rparr>)])]"]
    by (simp add: cache_match_def matches_def vary_fields_def header_values_def store_def
        CACHE_NAME_def CACHE_VERSION_def)
qed

text \<open>
  C3 as stated fails where another cache, created before \<^verbatim>\<open>suwi-v1\<close>, holds an entry for
  the same page: \<^verbatim>\<open>suwi-v1\<close> holds the response with body \<^verbatim>\<open>new\<close>, the fetch rejects, and
  the reply is the other cache's response, with body \<^verbatim>\<open>old\<close>.
\<close>

theorem network_first_store_counterexample:
  "store [(''site-cache'', [(\<lparr>request_method = ''GET'', url = \<lparr>origin = ''https://suwi.example'', pathname = ''/menu/'', search = []\<rparr>, request_headers = []\<rparr>, \<lparr>status = 200, headers = [], body = ''old''\<rparr>)]), (''suwi-v1'', [(\<lparr>request_method = ''GET'', url = \<lparr>origin = ''https://suwi.example'', pathname = ''/menu/'', search = []\<rparr>, request_headers = []\<rparr>, \<lparr>status = 200, headers = [], body = ''new''\<rparr>)])] CACHE_NAME
     = Some [(\<lparr>request_method = ''GET'', url = \<lparr>origin = ''https://suwi.example'', pathname = ''/menu/'', search = []\<rparr>, request_headers = []\<rparr>, \<lparr>status = 200, headers = [], body = ''new''\<rparr>)]
   \<and> cache_match \<lparr>request_method = ''GET'', url = \<lparr>origin = ''https://suwi.example'', pathname = ''/menu/'', search = []\<rparr>, request_headers = []\<rparr> [(\<lparr>request_method = ''GET'', url = \<lparr>origin = ''https://suwi.example'', pathname = ''/menu/'', search = []\<rparr>, request_headers = []\<rparr>, \<lparr>status = 200, headers = [], body = ''new''\<rparr>)] = Some \<lparr>status = 200, headers = [], body = ''new''\<rparr>
   \<and> reply (fetch_handler (\<lambda>q. NetReject) \<lparr>request_method = ''GET'', url = \<lparr>origin = ''https://suwi.example'', pathname = ''/menu/'', search = []\<rparr>, request_headers = []\<rparr>
        [(''site-cache'', [(\<lparr>request_method = ''GET'', url = \<lparr>origin = ''https://suwi.example'', pathname = ''/menu/'', search = []\<rparr>, request_headers = []\<rparr>, \<lparr>status = 200, headers = [], body = ''old''\<rparr>)]), (''suwi-v1'', [(\<lparr>request_method = ''GET'', url = \<lparr>origin = ''https://suwi.example'', pathname = ''/menu/'', search = []\<rparr>, request_headers = []\<rparr>, \<lparr>status = 200, headers = [], body = ''new''\<rparr>)])])
     = Responded \<lparr>status = 200, headers = [], body = ''old''\<rparr>
   \<and> reply (fetch_handler (\<lambda>q. NetReject) \<lparr>request_method = ''GET'', url = \<lparr>origin = ''https://suwi.example'', pathname = ''/menu/'', search = []\<rparr>, request_headers = []\<rparr>
        [(''site-cache'', [(\<lparr>request_method = ''GET'', url = \<lparr>origin = ''https://suwi.example'', pathname = ''/menu/'', search = []\<rparr>, request_headers = []\<rparr>, \<lparr>status = 200, headers = [], body = ''old''\<rparr>)]), (''suwi-v1'', [(\<lparr>request_method = ''GET'', url = \<lparr>origin = ''https://suwi.example'', pathname = ''/menu/'', search = []\<rparr>, request_headers = []\<rparr>, \<lparr>status = 200, headers = [], body = ''new''\<rparr>)])])
     \<noteq> Responded \<lparr>status = 200, headers = [], body = ''new''\<rparr>"
  by (simp add: fetch_handler_def network_first_def bypass_def startsWith_def store_def
      cache_match_def matches_def vary_fields_def header_values_def
      CACHE_NAME_def CACHE_VERSION_def)

text \<open>
  C4. For a page request whose fetch rejects the reply is always a response, never a
  failure. When no cache holds an entry that the request matches the response is made
  up: if the request has an \<^verbatim>\<open>accept\<close> header that includes \<^verbatim>\<open>text/html\<close>, status 503 with
  content type \<^verbatim>\<open>text/html; charset=utf-8\<close> and the HTML body that holds the offline
  notice; otherwise status 503 with the body \<^verbatim>\<open>Offline\<close>.
\<close>

theorem network_first_offline_response:
  assumes "request_method req = ''GET''" and "\<not> bypass (pathname (url req))"
    and "\<not> startsWith (pathname (url req)) ''/static/''" and "net req = NetReject"
  shows "(\<exists>r. reply (fetch_handler net req cs) = Responded r) \<and>
         (caches_match req cs = None \<and>
            (\<exists>a. accept req = Some a \<and> includes_str a ''text/html'') \<longrightarrow>
            (\<exists>r. reply (fetch_handler net req cs) = Responded r \<and> status r = 503 \<and>
                 map_of (headers r) ''Content-Type'' = Some ''text/html; charset=utf-8'' \<and>
                 body r = ''<html><body><h1>'' @ offline_h1 @ ''</h1><p>'' @ offline_p @
                            ''</p></body></html>'' \<and>
                 sublist offline_h1 (body r)) \<and>
            storage (fetch_handler net req cs) = cs) \<and>
         (caches_match req cs = None \<and>
            \<not> (\<exists>a. accept req = Some a \<and> includes_str a ''text/html'') \<longrightarrow>
            (\<exists>r. reply (fetch_handler net req cs) = Responded r \<and> status r = 503 \<and>
                 body r = ''Offline'') \<and>
            storage (fetch_handler net req cs) = cs)"
proof -
  have some: "\<exists>r. reply (network_first net req cs) = Responded r"
    using assms(4) by (simp add: network_first_def split: option.splits)
  have html: "reply (network_first net req cs) = Responded offline_html \<and>
      storage (network_first net req cs) = cs"
    if "caches_match req cs = None" and "accept req = Some a"
      and "includes_str a ''text/html''" for a
    using that assms(4) by (simp add: network_first_def accepts_html_def)
  have plain: "reply (network_first net req cs) = Responded offline_plain \<and>
      storage (network_first net req cs) = cs"
    if "caches_match req cs = None"
      and "\<not> (\<exists>a. accept req = Some a \<and> includes_str a ''text/html'')"
    using that assms(4) by (simp add: network_first_def accepts_html_def split: option.splits)
  have notice: "sublist offline_h1 (body offline_html)"
  proof -
    have "body offline_html =
        ''<html><body><h1>'' @ offline_h1 @ (''</h1><p>'' @ offline_p @ ''</p></body></html>'')"
      by (simp add: offline_html_def)
    then show ?thesis
      by (simp only: sublist_appendI)
  qed
  have h: "status offline_html = 503 \<and>
      map_of (headers offline_html) ''Content-Type'' = Some ''text/html; charset=utf-8'' \<and>
      body offline_html = ''<html><body><h1>'' @ offline_h1 @ ''</h1><p>'' @ offline_p @
                            ''</p></body></html>''"
    by (simp add: offline_html_def)
  have p: "status offline_plain = 503 \<and> body offline_plain = ''Offline''"
    by (simp add: offline_plain_def)
  show ?thesis
    unfolding page_request [OF assms(1-3)] using some html plain notice h p by blast
qed

theorem network_first_offline_response_witness:
  "(\<exists>r. reply (fetch_handler (\<lambda>q. NetReject) \<lparr>request_method = ''GET'', url = \<lparr>origin = ''https://suwi.example'', pathname = ''/menu/item/42/'', search = []\<rparr>, request_headers = [(''accept'', ''text/html,application/xhtml+xml'')]\<rparr> []) = Responded r \<and> status r = 503 \<and>
        map_of (headers r) ''Content-Type'' = Some ''text/html; charset=utf-8'' \<and>
        sublist offline_h1 (body r)) \<and>
   (\<exists>r. reply (fetch_handler (\<lambda>q. NetReject) \<lparr>request_method = ''GET'', url = \<lparr>origin = ''https://suwi.example'', pathname = ''/menu/item/42/'', search = []\<rparr>, request_headers = [(''accept'', ''application/json'')]\<rparr> []) = Responded r \<and> status r = 503 \<and>
        body r = ''Offline'') \<and>
   (\<exists>r. reply (fetch_handler (\<lambda>q. NetReject) \<lparr>request_method = ''GET'', url = \<lparr>origin = ''https://suwi.example'', pathname = ''/menu/item/42/'', search = []\<rparr>, request_headers = [(''accept'', ''application/json'')]\<rparr> [(''suwi-v1'', [(\<lparr>request_method = ''GET'', url = \<lparr>origin = ''https://suwi.example'', pathname = ''/menu/item/42/'', search = []\<rparr>, request_headers = [(''accept'', ''text/html,application/xhtml+xml'')]\<rparr>, \<lparr>status = 200, headers = [(''Vary'', ''Accept'')], body = ''page''\<rparr>)])])
          = Responded r \<and> status r = 503 \<and> body r = ''Offline'')"
proof -
  have b: "\<not> bypass ''/menu/item/42/''"
    by (simp add: bypass_def startsWith_def)
  have s: "\<not> startsWith ''/menu/item/42/'' ''/static/''"
    by (simp add: startsWith_def)
  have yes: "accept \<lparr>request_method = ''GET'', url = \<lparr>origin = ''https://suwi.example'', pathname = ''/menu/item/42/'', search = []\<rparr>, request_headers = [(''accept'', ''text/html,application/xhtml+xml'')]\<rparr> = Some ''text/html,application/xhtml+xml'' \<and>
      includes_str ''text/html,application/xhtml+xml'' ''text/html''"
    by (simp add: accept_def headers_get_def header_values_def includes_str_def
        sublist_Cons_right)
  have no: "accept \<lparr>request_method = ''GET'', url = \<lparr>origin = ''https://suwi.example'', pathname = ''/menu/item/42/'', search = []\<rparr>, request_headers = [(''accept'', ''application/json'')]\<rparr> = Some ''application/json'' \<and>
      \<not> includes_str ''application/json'' ''text/html''"
    by (simp add: accept_def headers_get_def header_values_def includes_str_def
        sublist_Cons_right)
  have miss: "caches_match \<lparr>request_method = ''GET'', url = \<lparr>origin = ''https://suwi.example'', pathname = ''/menu/item/42/'', search = []\<rparr>, request_headers = [(''accept'', ''application/json'')]\<rparr> [(''suwi-v1'', [(\<lparr>request_method = ''GET'', url = \<lparr>origin = ''https://suwi.example'', pathname = ''/menu/item/42/'', search = []\<rparr>, request_headers = [(''accept'', ''text/html,application/xhtml+xml'')]\<rparr>, \<lparr>status = 200, headers = [(''Vary'', ''Accept'')], body = ''page''\<rparr>)])] = None"
    by code_simp
  have html: "\<exists>r. reply (fetch_handler (\<lambda>q. NetReject) \<lparr>request_method = ''GET'', url = \<lparr>origin = ''https://suwi.example'', pathname = ''/menu/item/42/'', search = []\<rparr>, request_headers = [(''accept'', ''text/html,application/xhtml+xml'')]\<rparr> []) = Responded r \<and> status r = 503 \<and>
        map_of (headers r) ''Content-Type'' = Some ''text/html; charset=utf-8'' \<and>
        sublist offline_h1 (body r)"
    using network_first_offline_response [where req = "\<lparr>request_method = ''GET'', url = \<lparr>origin = ''https://suwi.example'', pathname = ''/menu/item/42/'', search = []\<rparr>, request_headers = [(''accept'', ''text/html,application/xhtml+xml'')]\<rparr>" and net = "(\<lambda>q. NetReject)"
        and cs = "[]"] b s yes
    by auto
  have plain: "\<exists>r. reply (fetch_handler (\<lambda>q. NetReject) \<lparr>request_method = ''GET'', url = \<lparr>origin = ''https://suwi.example'', pathname = ''/menu/item/42/'', search = []\<rparr>, request_headers = [(''accept'', ''application/json'')]\<rparr> []) = Responded r \<and> status r = 503 \<and>
        body r = ''Offline''"
    using network_first_offline_response [where req = "\<lparr>request_method = ''GET'', url = \<lparr>origin = ''https://suwi.example'', pathname = ''/menu/item/42/'', search = []\<rparr>, request_headers = [(''accept'', ''application/json'')]\<rparr>" and net = "(\<lambda>q. NetReject)"
        and cs = "[]"] b s no
    by auto
  have vary: "\<exists>r. reply (fetch_handler (\<lambda>q. NetReject) \<lparr>request_method = ''GET'', url = \<lparr>origin = ''https://suwi.example'', pathname = ''/menu/item/42/'', search = []\<rparr>, request_headers = [(''accept'', ''application/json'')]\<rparr> [(''suwi-v1'', [(\<lparr>request_method = ''GET'', url = \<lparr>origin = ''https://suwi.example'', pathname = ''/menu/item/42/'', search = []\<rparr>, request_headers = [(''accept'', ''text/html,application/xhtml+xml'')]\<rparr>, \<lparr>status = 200, headers = [(''Vary'', ''Accept'')], body = ''page''\<rparr>)])])
          = Responded r \<and> status r = 503 \<and> body r = ''Offline''"
    using network_first_offline_response [where req = "\<lparr>request_method = ''GET'', url = \<lparr>origin = ''https://suwi.example'', pathname = ''/menu/item/42/'', search = []\<rparr>, request_headers = [(''accept'', ''application/json'')]\<rparr>" and net = "(\<lambda>q. NetReject)"
        and cs = "[(''suwi-v1'', [(\<lparr>request_method = ''GET'', url = \<lparr>origin = ''https://suwi.example'', pathname = ''/menu/item/42/'', search = []\<rparr>, request_headers = [(''accept'', ''text/html,application/xhtml+xml'')]\<rparr>, \<lparr>status = 200, headers = [(''Vary'', ''Accept'')], body = ''page''\<rparr>)])]"] b s no miss
    by auto
  from html plain vary show ?thesis
    by (intro conjI)
qed

subsection \<open>What is written to the caches\<close>

text \<open>
  C5. In both strategies a response is written to a cache only when it is the ok
  response that the fetch of this request gave, and the storage changes only by such a
  write. When the handler's fetch resolves to a response that is not ok, that response
  is the reply as it is, the storage stays as it was, and the handler does nothing
  after the fetch: no write, and no lookup for a fallback.
\<close>

theorem only_ok_responses_cached:
  "(\<forall>n k x. CachePut n k x \<in> set (effects (fetch_handler net req cs)) \<longrightarrow>
      ok x \<and> net req = NetResponse x \<and> n = CACHE_NAME \<and> k = url req) \<and>
   ((\<forall>n k x. CachePut n k x \<notin> set (effects (fetch_handler net req cs))) \<longrightarrow>
      storage (fetch_handler net req cs) = cs) \<and>
   (Fetch req \<in> set (effects (fetch_handler net req cs)) \<and> net req = NetResponse r \<and> \<not> ok r \<longrightarrow>
      reply (fetch_handler net req cs) = Responded r \<and>
      storage (fetch_handler net req cs) = cs \<and>
      effects (fetch_handler net req cs) =
        (if startsWith (pathname (url req)) ''/static/''
         then [CachesMatch (url req), Fetch req] else [Fetch req]))"
  by (auto simp: fetch_handler_def cache_first_def network_first_def
      split: option.splits net_result.splits)

theorem only_ok_responses_cached_witness:
  "reply (fetch_handler (\<lambda>q. NetResponse \<lparr>status = 404, headers = [], body = ''not found''\<rparr>) \<lparr>request_method = ''GET'', url = \<lparr>origin = ''https://suwi.example'', pathname = ''/menu/'', search = []\<rparr>, request_headers = []\<rparr> [(''suwi-v1'', [])]) = Responded \<lparr>status = 404, headers = [], body = ''not found''\<rparr> \<and>
   storage (fetch_handler (\<lambda>q. NetResponse \<lparr>status = 404, headers = [], body = ''not found''\<rparr>) \<lparr>request_method = ''GET'', url = \<lparr>origin = ''https://suwi.example'', pathname = ''/menu/'', search = []\<rparr>, request_headers = []\<rparr> [(''suwi-v1'', [])]) = [(''suwi-v1'', [])] \<and>
   effects (fetch_handler (\<lambda>q. NetResponse \<lparr>status = 404, headers = [], body = ''not found''\<rparr>) \<lparr>request_method = ''GET'', url = \<lparr>origin = ''https://suwi.example'', pathname = ''/menu/'', search = []\<rparr>, request_headers = []\<rparr> [(''suwi-v1'', [])]) = [Fetch \<lparr>request_method = ''GET'', url = \<lparr>origin = ''https://suwi.example'', pathname = ''/menu/'', search = []\<rparr>, request_headers = []\<rparr>]"
proof -
  have f: "Fetch \<lparr>request_method = ''GET'', url = \<lparr>origin = ''https://suwi.example'', pathname = ''/menu/'', search = []\<rparr>, request_headers = []\<rparr> \<in> set (effects (fetch_handler (\<lambda>q. NetResponse \<lparr>status = 404, headers = [], body = ''not found''\<rparr>) \<lparr>request_method = ''GET'', url = \<lparr>origin = ''https://suwi.example'', pathname = ''/menu/'', search = []\<rparr>, request_headers = []\<rparr> [(''suwi-v1'', [])]))"
    by (simp add: fetch_handler_def network_first_def bypass_def startsWith_def ok_def)
  have n: "\<not> ok \<lparr>status = 404, headers = [], body = ''not found''\<rparr>"
    by (simp add: ok_def)
  show ?thesis
    using only_ok_responses_cached [where req = "\<lparr>request_method = ''GET'', url = \<lparr>origin = ''https://suwi.example'', pathname = ''/menu/'', search = []\<rparr>, request_headers = []\<rparr>" and net = "(\<lambda>q. NetResponse \<lparr>status = 404, headers = [], body = ''not found''\<rparr>)"
        and cs = "[(''suwi-v1'', [])]" and r = "\<lparr>status = 404, headers = [], body = ''not found''\<rparr>"] f n
    by (simp add: startsWith_def)
qed




section \<open>Properties of install and activate\<close>








lemma fold_delete:
  "fold (\<lambda>name s. if rejects name then s else caches_delete name s) names cs
     = filter (\<lambda>e. \<not> (fst e \<in> set names \<and> \<not> rejects (fst e))) cs"
proof (induction names arbitrary: cs)
  case Nil
  show ?case by simp
next
  case (Cons n names)
  show ?case
  proof (cases "rejects n")
    case True
    then have "filter (\<lambda>e. \<not> (fst e \<in> set (n # names) \<and> \<not> rejects (fst e))) cs
        = filter (\<lambda>e. \<not> (fst e \<in> set names \<and> \<not> rejects (fst e))) cs"
      by (intro filter_cong) auto
    with True show ?thesis
      by (simp add: Cons.IH)
  next
    case False
    then have "filter (\<lambda>e. \<not> (fst e \<in> set (n # names) \<and> \<not> rejects (fst e))) cs
        = filter (\<lambda>e. \<not> (fst e \<in> set names \<and> \<not> rejects (fst e))) (caches_delete n cs)"
      by (induction cs) (auto simp: caches_delete_def)
    with False show ?thesis
      by (simp add: Cons.IH)
  qed
qed

lemma stores_activate:
  "stores (activate rejects cs)
     = filter (\<lambda>e. \<not> (old_cache (fst e) \<and> \<not> rejects (fst e))) cs"
proof -
  have "stores (activate rejects cs)
      = filter (\<lambda>e. \<not> (fst e \<in> set (filter old_cache (caches_keys cs)) \<and> \<not> rejects (fst e))) cs"
    unfolding activate_def Let_def by (simp only: lifecycle_outcome.simps fold_delete)
  also have "\<dots> = filter (\<lambda>e. \<not> (old_cache (fst e) \<and> \<not> rejects (fst e))) cs"
    by (intro filter_cong) (auto simp: caches_keys_def)
  finally show ?thesis .
qed

lemma old_cache_iff: "old_cache name \<longleftrightarrow> startsWith name ''suwi-'' \<and> name \<noteq> ''suwi-v1''"
  by (simp add: old_cache_def CACHE_NAME_def CACHE_VERSION_def)

lemma map_of_filter_fst:
  "map_of (filter (\<lambda>e. P (fst e)) cs) n = (if P n then map_of cs n else None)"
  by (induction cs) auto

text \<open>
  C7. When every deletion that activate asks for goes through, the caches deleted are
  exactly those whose name starts with \<^verbatim>\<open>suwi-\<close> and is not \<^verbatim>\<open>suwi-v1\<close>: the storage
  afterwards is the storage before without them, every other cache (\<^verbatim>\<open>suwi-v1\<close> and
  the caches with another prefix) in its place with its entries. With \<^verbatim>\<open>suwi-v0\<close> and
  \<^verbatim>\<open>suwi-v1\<close> the caches before, \<^verbatim>\<open>suwi-v1\<close> is the only cache afterwards.
\<close>

theorem activate_deletes_old_caches:
  assumes "\<forall>name \<in> set (caches_keys cs).
             startsWith name ''suwi-'' \<and> name \<noteq> ''suwi-v1'' \<longrightarrow> \<not> rejects name"
  shows "stores (activate rejects cs)
           = filter (\<lambda>e. \<not> (startsWith (fst e) ''suwi-'' \<and> fst e \<noteq> ''suwi-v1'')) cs \<and>
         (\<forall>n. store (stores (activate rejects cs)) n =
               (if startsWith n ''suwi-'' \<and> n \<noteq> ''suwi-v1'' then None else store cs n)) \<and>
         (set (caches_keys cs) = {''suwi-v0'', ''suwi-v1''} \<longrightarrow>
            set (caches_keys (stores (activate rejects cs))) = {''suwi-v1''})"
proof -
  have "filter (\<lambda>e. \<not> (old_cache (fst e) \<and> \<not> rejects (fst e))) cs
      = filter (\<lambda>e. \<not> (startsWith (fst e) ''suwi-'' \<and> fst e \<noteq> ''suwi-v1'')) cs"
    using assms by (intro filter_cong) (auto simp: caches_keys_def old_cache_iff)
  then have eq: "stores (activate rejects cs)
      = filter (\<lambda>e. \<not> (startsWith (fst e) ''suwi-'' \<and> fst e \<noteq> ''suwi-v1'')) cs"
    by (simp add: stores_activate)
  have look: "\<forall>n. store (stores (activate rejects cs)) n =
      (if startsWith n ''suwi-'' \<and> n \<noteq> ''suwi-v1'' then None else store cs n)"
    unfolding eq store_def
    using map_of_filter_fst [of "\<lambda>n. \<not> (startsWith n ''suwi-'' \<and> n \<noteq> ''suwi-v1'')" cs]
    by simp
  have two: "set (caches_keys (stores (activate rejects cs))) = {''suwi-v1''}"
    if "set (caches_keys cs) = {''suwi-v0'', ''suwi-v1''}"
  proof -
    have "set (caches_keys (stores (activate rejects cs)))
        = {n \<in> set (caches_keys cs). \<not> (startsWith n ''suwi-'' \<and> n \<noteq> ''suwi-v1'')}"
      unfolding eq by (auto simp: caches_keys_def)
    also have "\<dots> = {''suwi-v1''}"
      unfolding that by (auto simp: startsWith_def)
    finally show ?thesis .
  qed
  from eq look two show ?thesis
    by blast
qed

theorem activate_deletes_old_caches_witness:
  "stores (activate (\<lambda>name. False)
      [(''suwi-v0'', [(\<lparr>request_method = ''GET'', url = \<lparr>origin = ''https://suwi.example'', pathname = ''/menu/'', search = []\<rparr>, request_headers = []\<rparr>, \<lparr>status = 200, headers = [], body = ''old''\<rparr>)]), (''site-cache'', []), (''suwi-v1'', [(\<lparr>request_method = ''GET'', url = \<lparr>origin = ''https://suwi.example'', pathname = ''/menu/'', search = []\<rparr>, request_headers = []\<rparr>, \<lparr>status = 200, headers = [], body = ''new''\<rparr>)])])
   = [(''site-cache'', []), (''suwi-v1'', [(\<lparr>request_method = ''GET'', url = \<lparr>origin = ''https://suwi.example'', pathname = ''/menu/'', search = []\<rparr>, request_headers = []\<rparr>, \<lparr>status = 200, headers = [], body = ''new''\<rparr>)])]"
  using activate_deletes_old_caches [where rejects = "\<lambda>name. False"
      and cs = "[(''suwi-v0'', [(\<lparr>request_method = ''GET'', url = \<lparr>origin = ''https://suwi.example'', pathname = ''/menu/'', search = []\<rparr>, request_headers = []\<rparr>, \<lparr>status = 200, headers = [], body = ''old''\<rparr>)]), (''site-cache'', []), (''suwi-v1'', [(\<lparr>request_method = ''GET'', url = \<lparr>origin = ''https://suwi.example'', pathname = ''/menu/'', search = []\<rparr>, request_headers = []\<rparr>, \<lparr>status = 200, headers = [], body = ''new''\<rparr>)])]"]
  by (simp add: startsWith_def)




section \<open>Properties of the push handler\<close>

text \<open>
  C10. For a push event whose payload is an object with no \<^verbatim>\<open>title\<close> member, the
  handler asks for a notification with the title \<^verbatim>\<open>Suwi\<close>. The \<^verbatim>\<open>body\<close> option is the
  payload's \<^verbatim>\<open>body\<close> member as it is, \<^verbatim>\<open>undefined\<close> when the payload has none: the body
  has no default, while the target URL has the default \<^verbatim>\<open>/\<close>.
\<close>

theorem push_default_title:
  assumes "map_of kvs ''title'' = None"
  shows "push_handler (Some (Inr (JObj kvs))) =
           ShowNotification (JStr ''Suwi'')
             \<lparr>opt_body = (case map_of kvs ''body'' of None \<Rightarrow> JUndefined | Some b \<Rightarrow> b),
              opt_icon = ''/static/icons/icon-192x192.png'',
              opt_badge = ''/static/icons/icon-72x72.png'',
              opt_vibrate = [100, 50, 100],
              opt_data_url =
                js_or (case map_of kvs ''url'' of None \<Rightarrow> JUndefined | Some u \<Rightarrow> u) (JStr ''/'')\<rparr>"
  using assms by (simp add: push_handler_def js_or_def split: option.splits)

theorem push_default_title_witness:
  "push_handler (Some (Inr (JObj [(''body'', JStr ''Your order is ready'')]))) =
     ShowNotification (JStr ''Suwi'')
       \<lparr>opt_body = JStr ''Your order is ready'',
        opt_icon = ''/static/icons/icon-192x192.png'',
        opt_badge = ''/static/icons/icon-72x72.png'',
        opt_vibrate = [100, 50, 100],
        opt_data_url = JStr ''/''\<rparr> \<and>
   push_handler (Some (Inr (JObj [(''url'', JStr ''/orders/7/'')]))) =
     ShowNotification (JStr ''Suwi'')
       \<lparr>opt_body = JUndefined,
        opt_icon = ''/static/icons/icon-192x192.png'',
        opt_badge = ''/static/icons/icon-72x72.png'',
        opt_vibrate = [100, 50, 100],
        opt_data_url = JStr ''/orders/7/''\<rparr>"
  using push_default_title [where kvs = "[(''body'', JStr ''Your order is ready'')]"]
    push_default_title [where kvs = "[(''url'', JStr ''/orders/7/'')]"]
  by (simp add: js_or_def)

end
